theory Spec2Isabelle
  imports Main
begin

section \<open>JavaScript values and strings\<close>

text \<open>
  The query screen (\<^verbatim>\<open>src/app/(tabs)/index.tsx\<close>) reads upstream payloads typed
  \<^verbatim>\<open>any\<close>. A payload is a decoded JSON document, so it is modelled by the datatype
  \<open>jsval\<close>; \<open>JUndef\<close> is JavaScript's \<^verbatim>\<open>undefined\<close> (an absent property or argument).
  An object is the list of its own properties with distinct keys.

  A string is a \<open>char list\<close> whose characters stand for the UTF-16 code units below 256
  (ASCII and Latin-1), which covers the accented literals of the source
  (the o, n and i with accent or tilde, 0xF3, 0xF1 and 0xED). Numbers are the
  integer-valued ones, printed in decimal as JavaScript prints integers of ordinary
  size.
\<close>

datatype jsval =
    JUndef
  | JNull
  | JBool bool
  | JNum int
  | JStr string
  | JArr "jsval list"
  | JObj "(string \<times> jsval) list"

text \<open>
  The exception a normalizer can throw: a \<^verbatim>\<open>TypeError\<close> for calling a method that the
  value does not have, kept with the name of the method.
\<close>

datatype js_error = TypeError string

text \<open>Truthiness, as tested by \<^verbatim>\<open>||\<close>, \<^verbatim>\<open>!\<close>, \<^verbatim>\<open>if\<close> and \<^verbatim>\<open>filter(Boolean)\<close>.\<close>

fun truthy :: "jsval \<Rightarrow> bool" where
  "truthy JUndef = False"
| "truthy JNull = False"
| "truthy (JBool b) = b"
| "truthy (JNum n) = (n \<noteq> 0)"
| "truthy (JStr s) = (s \<noteq> [])"
| "truthy (JArr xs) = True"
| "truthy (JObj kvs) = True"

text \<open>\<^verbatim>\<open>a || b\<close> and \<^verbatim>\<open>a ?? b\<close>.\<close>

definition orElse :: "jsval \<Rightarrow> jsval \<Rightarrow> jsval" where
  "orElse a b = (if truthy a then a else b)"

definition nullish :: "jsval \<Rightarrow> bool" where
  "nullish a = (a = JUndef \<or> a = JNull)"

definition coalesce :: "jsval \<Rightarrow> jsval \<Rightarrow> jsval" where
  "coalesce a b = (if nullish a then b else a)"

text \<open>
  \<^verbatim>\<open>x?.name\<close> for the property names the source reads: an own property of an object,
  \<^verbatim>\<open>undefined\<close> on \<^verbatim>\<open>null\<close>, \<^verbatim>\<open>undefined\<close> and on every primitive or array (none of
  the names read is a built-in property of strings, numbers, booleans or arrays).
\<close>

fun getProp :: "jsval \<Rightarrow> string \<Rightarrow> jsval" where
  "getProp (JObj kvs) k = (case map_of kvs k of Some v \<Rightarrow> v | None \<Rightarrow> JUndef)"
| "getProp v k = JUndef"

fun join :: "string \<Rightarrow> string list \<Rightarrow> string" where
  "join sep [] = []"
| "join sep [x] = x"
| "join sep (x # y # ys) = x @ sep @ join sep (y # ys)"

fun show_nat :: "nat \<Rightarrow> string" where
  "show_nat n =
     (if n < 10 then [''0123456789'' ! n]
      else show_nat (n div 10) @ [''0123456789'' ! (n mod 10)])"

definition show_int :: "int \<Rightarrow> string" where
  "show_int i = (if i < 0 then CHR ''-'' # show_nat (nat (- i)) else show_nat (nat i))"

text \<open>
  \<^verbatim>\<open>String(v)\<close>, the conversion a template literal and \<^verbatim>\<open>Array.prototype.join\<close> apply.
  An array prints its elements separated by commas, \<^verbatim>\<open>null\<close> and \<^verbatim>\<open>undefined\<close>
  elements as the empty string.
\<close>

fun toString :: "jsval \<Rightarrow> string" where
  "toString JUndef = ''undefined''"
| "toString JNull = ''null''"
| "toString (JBool b) = (if b then ''true'' else ''false'')"
| "toString (JNum n) = show_int n"
| "toString (JStr s) = s"
| "toString (JArr xs) =
     join '','' (map (\<lambda>x. if x = JUndef \<or> x = JNull then [] else toString x) xs)"
| "toString (JObj kvs) = ''[object Object]''"

subsection \<open>Character classes and case mapping\<close>

definition isDigit :: "char \<Rightarrow> bool" where
  "isDigit c = (c \<in> set ''0123456789'')"

definition isAlnum :: "char \<Rightarrow> bool" where
  "isAlnum c =
     (c \<in> set ''ABCDEFGHIJKLMNOPQRSTUVWXYZabcdefghijklmnopqrstuvwxyz0123456789'')"

text \<open>The white space of \<^verbatim>\<open>trim\<close> and of \<^verbatim>\<open>\s\<close>: TAB, LF, VT, FF, CR, space, NBSP.\<close>

definition isSpace :: "char \<Rightarrow> bool" where
  "isSpace c = (c \<in> set [CHR 0x09, CHR 0x0A, CHR 0x0B, CHR 0x0C, CHR 0x0D, CHR 0x20, CHR 0xA0])"

definition toLowerChar :: "char \<Rightarrow> char" where
  "toLowerChar c =
     (let n = (of_char c :: nat)
      in if (65 \<le> n \<and> n \<le> 90) \<or> (192 \<le> n \<and> n \<le> 222 \<and> n \<noteq> 215)
         then char_of (n + 32) else c)"

definition toLowerCase :: "string \<Rightarrow> string" where
  "toLowerCase s = map toLowerChar s"

text \<open>
  \<^verbatim>\<open>toUpperCase\<close>: the sharp s (0xDF) becomes \<^verbatim>\<open>SS\<close>. The micro sign and the y with
  diaeresis, whose capitals lie outside the modelled alphabet, are left as they are.
\<close>

definition toUpperChar :: "char \<Rightarrow> char" where
  "toUpperChar c =
     (let n = (of_char c :: nat)
      in if (97 \<le> n \<and> n \<le> 122) \<or> (224 \<le> n \<and> n \<le> 254 \<and> n \<noteq> 247)
         then char_of (n - 32) else c)"

definition toUpperCase :: "string \<Rightarrow> string" where
  "toUpperCase s = concat (map (\<lambda>c. if c = CHR 0xDF then ''SS'' else [toUpperChar c]) s)"

text \<open>
  Canonical form of a character under the \<^verbatim>\<open>i\<close> flag of a regular expression: only
  the ASCII letters fold onto ASCII capitals.
\<close>

definition foldAscii :: "char \<Rightarrow> char" where
  "foldAscii c =
     (let n = (of_char c :: nat) in if 97 \<le> n \<and> n \<le> 122 then char_of (n - 32) else c)"

subsection \<open>String operations\<close>

definition trim :: "string \<Rightarrow> string" where
  "trim s = rev (dropWhile isSpace (rev (dropWhile isSpace s)))"

definition startsWith :: "string \<Rightarrow> string \<Rightarrow> bool" where
  "startsWith s p = (take (length p) s = p)"

text \<open>\<^verbatim>\<open>s.includes(p)\<close>.\<close>

fun strIncludes :: "string \<Rightarrow> string \<Rightarrow> bool" where
  "strIncludes [] p = (p = [])"
| "strIncludes (c # cs) p = (startsWith (c # cs) p \<or> strIncludes cs p)"

text \<open>A literal of capitals and spaces matched at the head of \<open>s\<close> under the \<^verbatim>\<open>i\<close> flag.\<close>

definition startsWithCi :: "string \<Rightarrow> string \<Rightarrow> bool" where
  "startsWithCi s p = (map foldAscii (take (length p) s) = p)"

definition consHead :: "char \<Rightarrow> string list \<Rightarrow> string list" where
  "consHead c xs = (case xs of [] \<Rightarrow> [[c]] | x # r \<Rightarrow> (c # x) # r)"

text \<open>\<^verbatim>\<open>s.split(':')\<close> for a one-character separator.\<close>

fun split_char :: "char \<Rightarrow> string \<Rightarrow> string list" where
  "split_char sep [] = [[]]"
| "split_char sep (c # cs) =
     (if c = sep then [] # split_char sep cs else consHead c (split_char sep cs))"

text \<open>\<^verbatim>\<open>s.split(/\r?\n/)\<close>.\<close>

fun split_lines :: "string \<Rightarrow> string list" where
  "split_lines [] = [[]]"
| "split_lines [c] = (if c = CHR 0x0A then [[], []] else [[c]])"
| "split_lines (c # d # cs) =
     (if c = CHR 0x0A then [] # split_lines (d # cs)
      else if c = CHR 0x0D \<and> d = CHR 0x0A then [] # split_lines cs
      else consHead c (split_lines (d # cs)))"

text \<open>\<^verbatim>\<open>s.split(/\t+/)\<close>: a maximal run of tabs is one separator.\<close>

function split_tabs :: "string \<Rightarrow> string list" where
  "split_tabs [] = [[]]"
| "split_tabs (c # cs) =
     (if c = CHR 0x09 then [] # split_tabs (dropWhile (\<lambda>x. x = CHR 0x09) cs)
      else consHead c (split_tabs cs))"
  by pat_completeness auto
termination
  by (relation "measure length") (auto simp: length_dropWhile_le less_Suc_eq_le)

text \<open>\<^verbatim>\<open>l.split(/\t+/).filter(Boolean)\<close>, the cells of a table line.\<close>

definition cells :: "string \<Rightarrow> string list" where
  "cells l = filter (\<lambda>p. p \<noteq> []) (split_tabs l)"

text \<open>\<^verbatim>\<open>raw.split(/\r?\n/).map((l) => l.trim()).filter(Boolean)\<close>.\<close>

definition trimmedLines :: "string \<Rightarrow> string list" where
  "trimmedLines raw = filter (\<lambda>l. l \<noteq> []) (map trim (split_lines raw))"

fun findIndex :: "('a \<Rightarrow> bool) \<Rightarrow> 'a list \<Rightarrow> nat option" where
  "findIndex P [] = None"
| "findIndex P (x # xs) =
     (if P x then Some 0 else map_option Suc (findIndex P xs))"

text \<open>\<^verbatim>\<open>xs[i]\<close>, \<^verbatim>\<open>undefined\<close> out of range.\<close>

definition elemAt :: "'a list \<Rightarrow> nat \<Rightarrow> 'a option" where
  "elemAt xs i = (if i < length xs then Some (xs ! i) else None)"

text \<open>\<^verbatim>\<open>a || b\<close> and \<^verbatim>\<open>a ?? b\<close> on optional non-empty strings.\<close>

definition orOpt :: "'a option \<Rightarrow> 'a option \<Rightarrow> 'a option" where
  "orOpt a b = (case a of Some x \<Rightarrow> Some x | None \<Rightarrow> b)"

text \<open>The pattern \<^verbatim>\<open>\d{2}\/\d{2}\/\d{4}\<close> at the head of a string.\<close>

definition dateAt :: "string \<Rightarrow> bool" where
  "dateAt s =
     (10 \<le> length s \<and> isDigit (s ! 0) \<and> isDigit (s ! 1) \<and> s ! 2 = CHR ''/'' \<and>
      isDigit (s ! 3) \<and> isDigit (s ! 4) \<and> s ! 5 = CHR ''/'' \<and>
      isDigit (s ! 6) \<and> isDigit (s ! 7) \<and> isDigit (s ! 8) \<and> isDigit (s ! 9))"

text \<open>\<^verbatim>\<open>/\d{2}\/\d{2}\/\d{4}/.test(l)\<close>.\<close>

fun testDate :: "string \<Rightarrow> bool" where
  "testDate [] = False"
| "testDate (c # cs) = (dateAt (c # cs) \<or> testDate cs)"

text \<open>
  \<^verbatim>\<open>raw.match(/(\d{2}\/\d{2}\/\d{4})/g)\<close>: the matches from left to right, the scan
  resuming after each one; the empty list stands for \<^verbatim>\<open>null\<close>.
\<close>

fun matchDates :: "string \<Rightarrow> string list" where
  "matchDates [] = []"
| "matchDates (c # cs) =
     (if dateAt (c # cs) then take 10 (c # cs) # matchDates (drop 9 cs)
      else matchDates cs)"

text \<open>
  \<^verbatim>\<open>/CENTRO DE INSPECC?ION[^,\n]+/i\<close> at the head of a string: the optional letter is
  tried first, then left out; the tail takes every character up to a comma or a line
  feed and needs one at least.
\<close>

definition centroTail :: "string \<Rightarrow> nat \<Rightarrow> string option" where
  "centroTail s k =
     (let r = drop k s
      in if startsWithCi r ''ION''
         then (let t = takeWhile (\<lambda>c. c \<noteq> CHR '','' \<and> c \<noteq> CHR 0x0A) (drop 3 r)
               in if t = [] then None else Some (take (k + 3 + length t) s))
         else None)"

definition centroAt :: "string \<Rightarrow> string option" where
  "centroAt s =
     (if startsWithCi s ''CENTRO DE INSPEC''
      then (if startsWithCi (drop 16 s) ''C''
            then orOpt (centroTail s 17) (centroTail s 16)
            else centroTail s 16)
      else None)"

text \<open>\<^verbatim>\<open>raw.match(/CENTRO DE INSPECC?ION[^,\n]+/i)\<close>: the leftmost match, if any.\<close>

fun matchCentro :: "string \<Rightarrow> string option" where
  "matchCentro [] = None"
| "matchCentro (c # cs) = orOpt (centroAt (c # cs)) (matchCentro cs)"

section \<open>Response normalizers\<close>

subsection \<open>SOAT (insurance coverage)\<close>

record SoatData =
  aseguradora :: string
  clase :: string
  uso :: string
  accidentes :: string
  poliza :: string
  certificado :: string
  inicio :: string
  fin :: string
  infoActualizada :: "string option"

text \<open>
  The local \<^verbatim>\<open>infoActualizada\<close> of \<^verbatim>\<open>parseSoat\<close>: the text after the first colon of
  the first line that mentions the updated-information label (\<^verbatim>\<open>informaci\<close>, 0xF3,
  \<^verbatim>\<open>n actualizada\<close>), \<^verbatim>\<open>undefined\<close> when empty.
\<close>

definition soat_infoActualizada :: "string list \<Rightarrow> string option" where
  "soat_infoActualizada lines =
     (case findIndex
             (\<lambda>l. strIncludes (toLowerCase l) (''informaci'' @ [CHR 0xF3] @ ''n actualizada''))
             lines of
        None \<Rightarrow> None
      | Some infoIdx \<Rightarrow>
          (let t = trim (join '':'' (drop 1 (split_char CHR '':'' (lines ! infoIdx))))
           in if t = [] then None else Some t))"

text \<open>
  The local \<^verbatim>\<open>row\<close>: the first line with five cells or more after the header line, or
  failing that the first such line of the whole text.
\<close>

definition soat_row :: "string list \<Rightarrow> string option" where
  "soat_row lines =
     (let headerIdx =
            findIndex
              (\<lambda>l. strIncludes (toLowerCase l) (''compa'' @ [CHR 0xF1, CHR 0xED] @ ''a aseguradora''))
              lines;
          row = (case headerIdx of
                   Some h \<Rightarrow> find (\<lambda>l. 5 \<le> length (cells l)) (drop (h + 1) lines)
                 | None \<Rightarrow> None)
      in case row of
           Some r \<Rightarrow> Some r
         | None \<Rightarrow> find (\<lambda>l. 5 \<le> length (cells l)) lines)"

definition parseSoat :: "string \<Rightarrow> SoatData option" where
  "parseSoat raw =
     (let lines = trimmedLines raw;
          info = soat_infoActualizada lines
      in case soat_row lines of
           None \<Rightarrow> None
         | Some row \<Rightarrow>
             (let parts = cells row
              in if length parts < 8 then None
                 else Some \<lparr> aseguradora = parts ! 0, clase = parts ! 1, uso = parts ! 2,
                             accidentes = parts ! 3, poliza = parts ! 4,
                             certificado = parts ! 5, inicio = parts ! 6, fin = parts ! 7,
                             infoActualizada = info \<rparr>))"

subsection \<open>ITV (technical inspection)\<close>

record ItvData =
  inicio :: "string option"
  fin :: "string option"
  estado :: "string option"
  vigencia :: "string option"
  centro :: "string option"

text \<open>
  \<^verbatim>\<open>(full?.placa ?? '').toUpperCase()\<close>: a plate that is neither absent nor a string
  has no such method, and the call throws.
\<close>

definition itv_plateUpper :: "jsval \<Rightarrow> js_error + string" where
  "itv_plateUpper full =
     (case coalesce (getProp full ''placa'') (JStr []) of
        JStr p \<Rightarrow> Inr (toUpperCase p)
      | _ \<Rightarrow> Inl (TypeError ''toUpperCase''))"

text \<open>The cells of the line found for the plate (or, without a plate, of the first dated line).\<close>

definition itv_tokens :: "string \<Rightarrow> string \<Rightarrow> string list" where
  "itv_tokens raw plateUpper =
     (case find (\<lambda>l. if plateUpper \<noteq> [] then strIncludes l plateUpper else testDate l)
             (trimmedLines raw) of
        Some row \<Rightarrow> cells row
      | None \<Rightarrow> [])"

text \<open>The textual status \<^verbatim>\<open>tokens[5] ?? tokens[4]\<close>.\<close>

definition itv_estado :: "string list \<Rightarrow> string option" where
  "itv_estado tokens = orOpt (elemAt tokens 5) (elemAt tokens 4)"

text \<open>The status inferred from the boolean \<^verbatim>\<open>vigente\<close>, the textual one otherwise.\<close>

definition itv_vigencia :: "jsval \<Rightarrow> string option \<Rightarrow> string option" where
  "itv_vigencia full textual =
     (if getProp full ''vigente'' = JBool True then Some ''Vigente''
      else if getProp full ''vigente'' = JBool False then Some ''Vencido''
      else textual)"

definition parseItv :: "string \<Rightarrow> jsval \<Rightarrow> js_error + ItvData option" where
  "parseItv raw full =
     (case itv_plateUpper full of
        Inl e \<Rightarrow> Inl e
      | Inr plateUpper \<Rightarrow>
          (let tokens = itv_tokens raw plateUpper;
               inicio' = elemAt tokens 2;
               fin' = elemAt tokens 3;
               estado' = itv_estado tokens;
               dates = matchDates raw;
               fallbackInicio = (if 2 \<le> length dates then Some (dates ! 0) else None);
               fallbackFin = (if 2 \<le> length dates then Some (dates ! 1) else None);
               centroMatch = matchCentro raw;
               vigencia' = itv_vigencia full estado'
           in if inicio' = None \<and> fin' = None \<and> fallbackInicio = None \<and> fallbackFin = None \<and>
                 estado' = None \<and> vigencia' = None \<and> centroMatch = None
              then Inr None
              else Inr (Some \<lparr> inicio = orOpt inicio' fallbackInicio,
                                fin = orOpt fin' fallbackFin,
                                estado = orOpt estado' vigencia',
                                vigencia = vigencia',
                                centro = centroMatch \<rparr>)))"

subsection \<open>Licence, national identity and debt registry\<close>

text \<open>\<^verbatim>\<open>a || b || ... || z\<close>, evaluated from the left.\<close>

fun orChain :: "jsval \<Rightarrow> jsval list \<Rightarrow> jsval" where
  "orChain a [] = a"
| "orChain a (b # bs) = orChain (orElse a b) bs"

record LicenciaData =
  numero :: jsval
  clase :: jsval
  restricciones :: jsval
  estado :: jsval
  vencimiento :: jsval
  nombres :: jsval
  puntosFirmes :: jsval
  infracciones :: jsval
  graves :: jsval
  muyGraves :: jsval
  tramites :: jsval
  bonificaciones :: jsval

definition parseLicencia :: "jsval \<Rightarrow> jsval \<Rightarrow> LicenciaData" where
  "parseLicencia raw full =
     (let datos = orElse (getProp full ''datos'') full;
          resumen = orElse (getProp full ''resumen'') (JObj []);
          tramites' = orElse (getProp full ''tabla_tramites'') (JArr []);
          bonificaciones' = orElse (getProp full ''tabla_bonificacion'') (JArr [])
      in \<lparr> numero = orChain (getProp datos ''licencia'') [getProp datos ''numero'', JStr []],
           clase = orChain (getProp datos ''clase'') [getProp datos ''categoria'', JStr []],
           restricciones =
             orChain (getProp datos ''restricciones'') [getProp resumen ''restricciones'', JStr []],
           estado = orChain (getProp datos ''estado'') [getProp resumen ''estado_licencia'', JStr []],
           vencimiento =
             orChain (getProp datos ''fecha_revalidacion'')
               [getProp datos ''vencimiento'', getProp resumen ''vigente_hasta'',
                getProp resumen ''vencimiento'', JStr []],
           nombres =
             orChain (getProp datos ''nombres'')
               [getProp datos ''nombre_completo'', getProp resumen ''administrado'', JStr []],
           puntosFirmes =
             orChain (getProp resumen ''puntos_firmes'') [getProp resumen ''puntosFirmes'', JStr []],
           infracciones =
             orChain (getProp resumen ''infracciones_acumuladas'')
               [getProp resumen ''infracciones'', JStr []],
           graves = orElse (getProp resumen ''graves'') (JStr []),
           muyGraves = orElse (getProp resumen ''muy_graves'') (JStr []),
           tramites = tramites',
           bonificaciones = bonificaciones' \<rparr>)"

record DniData =
  nombres :: jsval
  apellidoPaterno :: jsval
  apellidoMaterno :: jsval
  codigoVerificacion :: jsval
  direccion :: jsval

definition parseDniPeru :: "jsval \<Rightarrow> jsval \<Rightarrow> DniData" where
  "parseDniPeru raw full =
     (let datos = orElse (getProp full ''datos'') full
      in \<lparr> nombres = orChain (getProp datos ''nombres'') [getProp datos ''nombre_completo'', JStr []],
           apellidoPaterno = orElse (getProp datos ''apellido_paterno'') (JStr []),
           apellidoMaterno = orElse (getProp datos ''apellido_materno'') (JStr []),
           codigoVerificacion = orElse (getProp datos ''codigo_verificacion'') (JStr []),
           direccion = orElse (getProp datos ''direccion'') (JStr []) \<rparr>)"

record RedamData =
  total :: nat
  detalle :: "jsval list"

definition parseRedam :: "jsval \<Rightarrow> jsval \<Rightarrow> RedamData" where
  "parseRedam raw full =
     (let datos = orElse (getProp full ''datos'') full;
          items = orElse (getProp datos ''registros'') (JArr [])
      in case items of
           JArr xs \<Rightarrow> \<lparr> total = length xs, detalle = take 3 xs \<rparr>
         | _ \<Rightarrow> \<lparr> total = 0, detalle = [] \<rparr>)"

subsection \<open>SUNARP (vehicle registry ownership)\<close>

text \<open>The identity attached to an owner: the identity record, with the queried number when
  the identity service returned a name.\<close>

record ReniecData = DniData +
  dni :: "string option"

text \<open>
  \<^verbatim>\<open>SunarpOwner\<close>. An absent optional property is \<open>None\<close> (\<open>JUndef\<close> for the fields the
  normalizer copies from the payload untyped).
\<close>

record SunarpOwner =
  nombre :: jsval
  documento :: "string option"
  porcentaje :: jsval
  condicion :: jsval
  reniec :: "ReniecData option"

record SunarpData =
  propietarios :: "SunarpOwner list"
  coincidencias :: "SunarpOwner list"
  dniPropietario :: "string option"
  propietarioUsado :: "string option"
  placa :: jsval
  vin :: jsval
  partida :: jsval
  oficina :: jsval
  captchaDetectado :: jsval
  captchaValido :: bool
  imagenResultado :: jsval

text \<open>\<^verbatim>\<open>[a, b, c].filter(Boolean).join(' ').trim()\<close>.\<close>

definition joinTruthy :: "jsval list \<Rightarrow> string" where
  "joinTruthy xs = trim (join '' '' (map toString (filter truthy xs)))"

text \<open>One element of \<^verbatim>\<open>propietariosRaw\<close>.\<close>

definition ownerOfRaw :: "jsval \<Rightarrow> SunarpOwner list" where
  "ownerOfRaw p =
     (let nombre' = orChain (getProp p ''nombre'')
                      [getProp p ''nombres'', getProp p ''propietario'',
                       getProp p ''razon_social'', JStr []];
          documento' = trim (toString (orChain (getProp p ''documento'')
                         [getProp p ''dni'', getProp p ''ruc'', getProp p ''doc'', JStr []]));
          porcentaje' = orChain (getProp p ''porcentaje'') [getProp p ''participacion'', JStr []];
          condicion' = orChain (getProp p ''condicion'') [getProp p ''calidad'', JStr []]
      in if truthy nombre' \<or> documento' \<noteq> []
         then [\<lparr> nombre = orElse nombre' (JStr ''Propietario''), documento = Some documento',
                  porcentaje = porcentaje', condicion = condicion', reniec = None \<rparr>]
         else [])"

text \<open>One element of \<^verbatim>\<open>propietariosDetalle\<close>.\<close>

definition ownerOfDetalle :: "jsval \<Rightarrow> SunarpOwner list" where
  "ownerOfDetalle p =
     (let texto = orElse (getProp p ''texto'') (JStr []);
          partes = joinTruthy [getProp p ''ap_paterno'', getProp p ''ap_materno'',
                               getProp p ''nombres''];
          nombre' = (if partes \<noteq> [] then JStr partes else texto);
          doc = trim (toString (orElse (getProp p ''documento'') (JStr [])))
      in if truthy nombre'
         then [\<lparr> nombre = nombre', documento = (if doc = [] then None else Some doc),
                  porcentaje = JUndef, condicion = orElse (getProp p ''condicion'') (JStr []),
                  reniec = None \<rparr>]
         else [])"

text \<open>One element of \<^verbatim>\<open>coincidenciasRaw\<close>, and one of \<^verbatim>\<open>busquedaResultados\<close>.\<close>

definition coincidenciaOf :: "jsval \<Rightarrow> SunarpOwner list" where
  "coincidenciaOf c =
     (let nombre' = joinTruthy [getProp c ''nombres'', getProp c ''ap_paterno'',
                                getProp c ''ap_materno'', getProp c ''texto''];
          documento' = trim (toString (orChain (getProp c ''dni'')
                         [getProp c ''documento'', JStr []]))
      in if nombre' \<noteq> [] \<or> documento' \<noteq> []
         then [\<lparr> nombre = JStr (if nombre' \<noteq> [] then nombre' else ''Coincidencia''),
                  documento = Some documento', porcentaje = JUndef, condicion = JUndef,
                  reniec = None \<rparr>]
         else [])"

definition busquedaOf :: "jsval \<Rightarrow> SunarpOwner list" where
  "busquedaOf c =
     (let nombre' = joinTruthy [getProp c ''nombres'', getProp c ''ap_paterno'',
                                getProp c ''ap_materno''];
          documento' = trim (toString (orElse (getProp c ''dni'') (JStr [])))
      in if nombre' \<noteq> [] \<or> documento' \<noteq> []
         then [\<lparr> nombre = JStr (if nombre' \<noteq> [] then nombre' else ''Coincidencia''),
                  documento = Some documento', porcentaje = JUndef, condicion = JUndef,
                  reniec = None \<rparr>]
         else [])"

text \<open>An owner that carries a name only.\<close>

definition namedOwner :: "string \<Rightarrow> SunarpOwner" where
  "namedOwner n = \<lparr> nombre = JStr n, documento = None, porcentaje = JUndef,
                     condicion = JUndef, reniec = None \<rparr>"

text \<open>\<^verbatim>\<open>/propietario/i.test(l)\<close>.\<close>

fun testPropietario :: "string \<Rightarrow> bool" where
  "testPropietario [] = False"
| "testPropietario (c # cs) = (startsWithCi (c # cs) ''PROPIETARIO'' \<or> testPropietario cs)"

text \<open>\<^verbatim>\<open>linea.replace(/propietario:?\s*/i, '')\<close>: the first match is removed.\<close>

fun removePropietario :: "string \<Rightarrow> string" where
  "removePropietario [] = []"
| "removePropietario (c # cs) =
     (if startsWithCi (c # cs) ''PROPIETARIO''
      then (let r = drop 11 (c # cs);
                r' = (if startsWith r '':'' then drop 1 r else r)
            in dropWhile isSpace r')
      else c # removePropietario cs)"

text \<open>The owners read from the payload, before the text of the response is looked at.\<close>

definition sunarp_payloadOwners :: "jsval \<Rightarrow> SunarpOwner list" where
  "sunarp_payloadOwners full =
     (let datos = orElse (getProp full ''datos'') full;
          propietariosRaw = orChain (getProp datos ''propietarios'')
                              [getProp datos ''titulares'', getProp datos ''propietario'',
                               getProp datos ''titular'', JArr []];
          propietariosDetalle = orChain (getProp datos ''propietarios_detalle'')
                                  [getProp datos ''propietariosDetalles'', JArr []]
      in (case propietariosRaw of
            JArr ps \<Rightarrow> concat (map ownerOfRaw ps)
          | JStr t \<Rightarrow> (if trim t \<noteq> [] then [namedOwner (trim t)] else [])
          | _ \<Rightarrow> [])
         @ (case propietariosDetalle of
              JArr ps \<Rightarrow> concat (map ownerOfDetalle ps)
            | _ \<Rightarrow> []))"

text \<open>The owners read from the lines of the text that mention an owner, three at most.\<close>

definition sunarp_textOwners :: "string \<Rightarrow> SunarpOwner list" where
  "sunarp_textOwners raw =
     concat (map (\<lambda>linea. let limpio = trim (removePropietario linea)
                           in if limpio \<noteq> [] then [namedOwner limpio] else [])
       (take 3 (filter testPropietario (map trim (split_lines raw)))))"

definition sunarp_coincidencias :: "jsval \<Rightarrow> SunarpOwner list" where
  "sunarp_coincidencias full =
     (let datos = orElse (getProp full ''datos'') full;
          coincidenciasRaw = orChain (getProp datos ''dni_propietario_coincidentes'')
                               [getProp datos ''propietarios_coincidentes'', JArr []];
          busquedaResultados = orElse (getProp (getProp datos ''dni_propietario_buscar'')
                                 ''resultados'') (JArr [])
      in (case coincidenciasRaw of JArr cs \<Rightarrow> concat (map coincidenciaOf cs) | _ \<Rightarrow> [])
         @ (case busquedaResultados of JArr cs \<Rightarrow> concat (map busquedaOf cs) | _ \<Rightarrow> []))"

definition parseSunarp :: "string \<Rightarrow> jsval \<Rightarrow> SunarpData option" where
  "parseSunarp raw full =
     (let datos = orElse (getProp full ''datos'') full;
          fromPayload = sunarp_payloadOwners full;
          propietarios' = (if fromPayload = [] then sunarp_textOwners raw else fromPayload);
          coincidencias' = sunarp_coincidencias full;
          placa' = orChain (getProp datos ''placa'') [getProp datos ''placa_rodaje'', JStr []];
          vin' = orChain (getProp datos ''vin'')
                   [getProp datos ''vin_vehicular'', getProp datos ''numero_vin'', JStr []];
          partida' = orChain (getProp datos ''partida'') [getProp datos ''nro_partida'', JStr []];
          oficina' = orChain (getProp datos ''oficina'')
                       [getProp datos ''zona'', getProp datos ''zona_registral'', JStr []];
          dniProp = trim (toString (orElse (getProp datos ''dni_propietario'') (JStr [])));
          usado = getProp datos ''propietario_usado_para_dni'';
          captcha = coalesce (getProp datos ''captcha_valido'') (getProp full ''captcha_valido'')
      in if propietarios' = [] \<and> coincidencias' = [] \<and>
            \<not> (truthy placa' \<or> truthy vin' \<or> truthy partida' \<or> truthy oficina')
         then None
         else Some \<lparr> propietarios = propietarios',
                     coincidencias = coincidencias',
                     dniPropietario = (if dniProp = [] then None else Some dniProp),
                     propietarioUsado =
                       (if truthy usado
                        then Some (joinTruthy [getProp usado ''nombres'', getProp usado ''ap_paterno'',
                                               getProp usado ''ap_materno''])
                        else None),
                     placa = placa', vin = vin', partida = partida', oficina = oficina',
                     captchaDetectado = orElse (getProp datos ''captcha_detectado'')
                                          (getProp full ''captcha_detectado''),
                     captchaValido = (captcha = JBool True \<or> captcha = JStr ''true''),
                     imagenResultado = orChain (getProp datos ''imagen_resultado_src'')
                                         [getProp full ''imagen_resultado_src'', JStr []] \<rparr>)"

section \<open>Service registry\<close>

datatype field = Placa | Dni

datatype scope = Vehiculo | Persona

datatype parser = ParseSoat | ParseItv | ParseSunarp | ParseLicencia | ParseDniPeru | ParseRedam

record ServiceConfig =
  endpoint :: string
  parser :: "parser option"
  field :: field
  scope :: scope

text \<open>The table \<^verbatim>\<open>serviceConfigs\<close>, in the order of its keys.\<close>

definition serviceTable :: "(string \<times> ServiceConfig) list" where
  "serviceTable =
     [(''soat'', \<lparr> endpoint = ''http://localhost:8000/consulta-soat'',
                   parser = Some ParseSoat, field = Placa, scope = Vehiculo \<rparr>),
      (''itv'', \<lparr> endpoint = ''http://localhost:8000/consulta-itv'',
                  parser = Some ParseItv, field = Placa, scope = Vehiculo \<rparr>),
      (''satlima'', \<lparr> endpoint = ''http://localhost:8000/consulta-sat'',
                      parser = None, field = Placa, scope = Vehiculo \<rparr>),
      (''satcallao'', \<lparr> endpoint = ''http://localhost:8000/consulta-sat-callao'',
                        parser = None, field = Placa, scope = Vehiculo \<rparr>),
      (''sutran'', \<lparr> endpoint = ''http://localhost:8000/consulta-sutran'',
                     parser = None, field = Placa, scope = Vehiculo \<rparr>),
      (''sunarp'', \<lparr> endpoint = ''http://localhost:8000/consulta-vehicular'',
                     parser = Some ParseSunarp, field = Placa, scope = Vehiculo \<rparr>),
      (''licencia'', \<lparr> endpoint = ''http://localhost:8000/consulta-licencia-dni'',
                       parser = Some ParseLicencia, field = Dni, scope = Persona \<rparr>),
      (''dniperu'', \<lparr> endpoint = ''http://localhost:8000/consulta-dni-peru'',
                      parser = Some ParseDniPeru, field = Dni, scope = Persona \<rparr>),
      (''redam'', \<lparr> endpoint = ''http://localhost:8000/consulta-redam-dni'',
                    parser = Some ParseRedam, field = Dni, scope = Persona \<rparr>)]"

definition serviceConfigs :: "string \<Rightarrow> ServiceConfig option" where
  "serviceConfigs = map_of serviceTable"

text \<open>The normalized record of a service, as stored under \<^verbatim>\<open>parsed\<close>.\<close>

datatype parsed =
    PSoat SoatData
  | PItv ItvData
  | PSunarp SunarpData
  | PLicencia LicenciaData
  | PDniPeru DniData
  | PRedam RedamData

text \<open>
  \<^verbatim>\<open>config.parser(data?.resultado_crudo ?? '', data)\<close>. The first argument is whatever
  the payload holds there: \<^verbatim>\<open>parseSoat\<close> and \<^verbatim>\<open>parseItv\<close> split it at once, and
  \<^verbatim>\<open>parseSunarp\<close> splits it when the payload gave no owner, which throws unless it is
  a string; the other three never look at it. \<open>None\<close> is the \<^verbatim>\<open>null\<close> result.
\<close>

definition applyParser :: "parser \<Rightarrow> jsval \<Rightarrow> jsval \<Rightarrow> js_error + parsed option" where
  "applyParser ps raw full =
     (case ps of
        ParseSoat \<Rightarrow>
          (case raw of
             JStr t \<Rightarrow> Inr (map_option PSoat (parseSoat t))
           | _ \<Rightarrow> Inl (TypeError ''split''))
      | ParseItv \<Rightarrow>
          (case raw of
             JStr t \<Rightarrow> (case parseItv t full of Inl e \<Rightarrow> Inl e | Inr r \<Rightarrow> Inr (map_option PItv r))
           | _ \<Rightarrow> Inl (TypeError ''split''))
      | ParseSunarp \<Rightarrow>
          (case raw of
             JStr t \<Rightarrow> Inr (map_option PSunarp (parseSunarp t full))
           | _ \<Rightarrow> (if sunarp_payloadOwners full = [] then Inl (TypeError ''split'')
                   else Inr (map_option PSunarp (parseSunarp [] full))))
      | ParseLicencia \<Rightarrow> Inr (Some (PLicencia (parseLicencia raw full)))
      | ParseDniPeru \<Rightarrow> Inr (Some (PDniPeru (parseDniPeru raw full)))
      | ParseRedam \<Rightarrow> Inr (Some (PRedam (parseRedam raw full))))"

section \<open>Transport and effects\<close>

text \<open>
  What \<^verbatim>\<open>fetch\<close> gives: a rejection carrying the thrown error's \<^verbatim>\<open>message\<close> (if it
  has one), or a response with its status, the text of its body, and the body decoded
  by \<^verbatim>\<open>res.json()\<close> (or the message of the error that decoding throws).
\<close>

datatype response =
    Rejected "string option"
  | Response nat string "string + jsval"

definition ok :: "nat \<Rightarrow> bool" where
  "ok status = (200 \<le> status \<and> status \<le> 299)"

text \<open>
  The alerts shown, by their titles: out of credits (\<^verbatim>\<open>Sin creditos\<close>, with an accent),
  \<^verbatim>\<open>Placa incompleta\<close> and \<^verbatim>\<open>DNI incompleto\<close>.
\<close>

datatype alert = SinCreditos | PlacaIncompleta | DniIncompleto

text \<open>\<^verbatim>\<open>LedgerEntry\<close>: the argument of \<^verbatim>\<open>registerConsulta\<close>.\<close>

record LedgerEntry =
  userId :: string
  serviceKey :: string
  placa :: "string option"
  dni :: "string option"
  payload :: "field \<times> string"
  respuesta :: jsval
  resumen :: string
  success :: bool
  errorCode :: "string option"
  durationMs :: int
  rawPath :: string

text \<open>
  The calls an issue makes to its collaborators, in the order it makes them: an alert,
  the haptic tick, a \<^verbatim>\<open>POST\<close> of \<^verbatim>\<open>{[field]: value}\<close> to an endpoint, a ledger write
  and the fetch of the usage snapshot.
\<close>

datatype effect =
    Alert alert
  | Haptic
  | Fetch string field string
  | RegisterConsulta LedgerEntry
  | GetUsageSnapshot string

definition isFetch :: "effect \<Rightarrow> bool" where
  "isFetch e = (case e of Fetch u f v \<Rightarrow> True | _ \<Rightarrow> False)"

definition isLedgerWrite :: "effect \<Rightarrow> bool" where
  "isLedgerWrite e = (case e of RegisterConsulta l \<Rightarrow> True | _ \<Rightarrow> False)"

section \<open>Cross-source enricher\<close>

definition formatDni :: "string \<Rightarrow> string" where
  "formatDni v = take 8 (filter isDigit v)"

text \<open>
  The body of the callback mapped over the owners, given what the identity endpoint
  answers to this owner's request. The request is made only for a number of eight
  digits; every failure inside the \<^verbatim>\<open>try\<close> gives the owner back as it was.
\<close>

definition enrichOwner :: "ServiceConfig \<Rightarrow> response \<Rightarrow> SunarpOwner \<Rightarrow> SunarpOwner \<times> effect list" where
  "enrichOwner dniConfig res owner =
     (let dni' = formatDni (case documento owner of Some d \<Rightarrow> d | None \<Rightarrow> [])
      in if dni' = [] \<or> length dni' < 8 then (owner, [])
         else
           (let request = [Fetch (endpoint dniConfig) (field dniConfig) dni']
            in case res of
                 Rejected m \<Rightarrow> (owner, request)
               | Response status body decoded \<Rightarrow>
                   (if \<not> ok status then (owner, request)
                    else case decoded of
                           Inl m \<Rightarrow> (owner, request)
                         | Inr d \<Rightarrow>
                             (let parsedDni =
                                    parseDniPeru (coalesce (getProp d ''resultado_crudo'') (JStr [])) d;
                                  nombreDni =
                                    trim (toString (coalesce (DniData.nombres parsedDni) (JStr []))
                                          @ '' '' @
                                          toString (coalesce (apellidoPaterno parsedDni) (JStr []))
                                          @ '' '' @
                                          toString (coalesce (apellidoMaterno parsedDni) (JStr [])))
                              in if nombreDni \<noteq> []
                                 then (owner\<lparr> nombre := orElse (nombre owner) (JStr nombreDni),
                                              reniec := Some (DniData.extend parsedDni
                                                          (ReniecData.fields (Some dni'))) \<rparr>,
                                       request)
                                 else (owner\<lparr> reniec := Some (DniData.extend parsedDni
                                                          (ReniecData.fields None)) \<rparr>,
                                       request)))))"

text \<open>
  \<^verbatim>\<open>enrichSunarpWithDni\<close>. \<open>lookup i\<close> is the answer to the request made for the owner
  at position \<open>i\<close>; the callbacks start in the order of the owners, and
  \<^verbatim>\<open>Promise.all\<close> returns their results in that order.
\<close>

definition enrichSunarpWithDni ::
    "(nat \<Rightarrow> response) \<Rightarrow> SunarpData option \<Rightarrow> SunarpData option \<times> effect list" where
  "enrichSunarpWithDni lookup p =
     (case p of
        None \<Rightarrow> (None, [])
      | Some sd \<Rightarrow>
          (if propietarios sd = [] then (p, [])
           else case serviceConfigs ''dniperu'' of
                  None \<Rightarrow> (p, [])
                | Some dniConfig \<Rightarrow>
                    (if endpoint dniConfig = [] then (p, [])
                     else (let rs = map (\<lambda>(i, owner). enrichOwner dniConfig (lookup i) owner)
                                      (enumerate 0 (propietarios sd))
                           in (Some (sd\<lparr> propietarios := map fst rs \<rparr>), concat (map snd rs))))))"

section \<open>Credit gate\<close>

text \<open>
  Modelled from the spec: the type \<^verbatim>\<open>UsageSnapshot\<close> is declared in \<^verbatim>\<open>lib/billing\<close>,
  which is not among the sources; the spec gives it as
  \<^verbatim>\<open>{creditsRemaining: int?, plan, validUntil?}\<close>, where an absent \<^verbatim>\<open>creditsRemaining\<close>
  means unmetered. The plan is kept by its name.
\<close>

record UsageSnapshot =
  creditsRemaining :: "int option"
  plan :: "string option"
  validUntil :: "string option"

definition hasCredits :: "UsageSnapshot option \<Rightarrow> bool" where
  "hasCredits usage' =
     (case usage' of
        None \<Rightarrow> True
      | Some u \<Rightarrow> (case creditsRemaining u of None \<Rightarrow> True | Some n \<Rightarrow> 0 < n))"

text \<open>\<^verbatim>\<open>guardCredits\<close>: the verdict, and the alert raised when it is negative.\<close>

definition guardCredits :: "UsageSnapshot option \<Rightarrow> bool \<times> effect list" where
  "guardCredits usage' = (if hasCredits usage' then (True, []) else (False, [Alert SinCreditos]))"

section \<open>Query cache, state store and orchestrator\<close>

record ServiceState =
  loading :: bool
  error :: "string option"
  data :: jsval
  parsed :: "parsed option"
  query :: "string option"
  fetchedAt :: "int option"

text \<open>
  The state of the screen that an issue reads and writes: the two inputs, the state of
  every service, the usage snapshot and \<^verbatim>\<open>session?.user?.id\<close>.
\<close>

record HomeScreen =
  plateInput :: string
  personaDoc :: string
  serviceState :: "string \<Rightarrow> ServiceState option"
  usage :: "UsageSnapshot option"
  sessionUserId :: "string option"

text \<open>
  Modelled from the spec: \<^verbatim>\<open>registerConsulta\<close> and \<^verbatim>\<open>getUsageSnapshot\<close> belong to
  \<^verbatim>\<open>lib/billing\<close>, which is not among the sources. By the spec the first records an
  attempt and does not fail the orchestrator (it is the effect \<open>RegisterConsulta\<close>), and
  the second returns the snapshot of an account.

  The other collaborators of an issue are the answer of the transport to the request
  of the issue and to the identity request for the owner at each position, the
  successive readings of \<^verbatim>\<open>Date.now()\<close>, and the \<^verbatim>\<open>message\<close> the engine gives to a
  \<^verbatim>\<open>TypeError\<close>.
\<close>

record env =
  fetch :: "string \<Rightarrow> field \<Rightarrow> string \<Rightarrow> response"
  fetchOwner :: "nat \<Rightarrow> response"
  now :: "nat \<Rightarrow> int"
  getUsageSnapshot :: "string \<Rightarrow> UsageSnapshot"
  typeErrorMessage :: "js_error \<Rightarrow> string option"

text \<open>\<^verbatim>\<open>formatPlate\<close>; the memoised \<^verbatim>\<open>formattedPlate\<close> is \<open>formatPlate (plateInput w)\<close>.\<close>

definition formatPlate :: "string \<Rightarrow> string" where
  "formatPlate v =
     (let clean = take 6 (toUpperCase (filter isAlnum v));
          part1 = take 3 clean;
          part2 = take 3 (drop 3 clean)
      in part1 @ (if 3 < length clean then ''-'' else []) @ part2)"

text \<open>The default \<^verbatim>\<open>{ loading: false, data: null, error: null }\<close>.\<close>

definition emptyState :: ServiceState where
  "emptyState = \<lparr> loading = False, error = None, data = JNull, parsed = None,
                   query = None, fetchedAt = None \<rparr>"

text \<open>The initial \<^verbatim>\<open>serviceState\<close>: an empty state under every key of the registry.\<close>

definition initialServiceState :: "string \<Rightarrow> ServiceState option" where
  "initialServiceState = map_of (map (\<lambda>(k, c). (k, emptyState)) serviceTable)"

text \<open>\<^verbatim>\<open>setService(key, partial)\<close>, the partial update given as a function.\<close>

definition setService ::
    "HomeScreen \<Rightarrow> string \<Rightarrow> (ServiceState \<Rightarrow> ServiceState) \<Rightarrow> HomeScreen" where
  "setService w key partial =
     w\<lparr> serviceState :=
          (serviceState w)(key \<mapsto>
             partial (case serviceState w key of Some s \<Rightarrow> s | None \<Rightarrow> emptyState)) \<rparr>"

text \<open>The query value of an issue: the one supplied, or the one derived from the inputs.\<close>

definition queryValueOf :: "HomeScreen \<Rightarrow> ServiceConfig \<Rightarrow> string option \<Rightarrow> string" where
  "queryValueOf w config v =
     (case v of
        Some x \<Rightarrow> x
      | None \<Rightarrow> (if field config = Placa then remove1 CHR ''-'' (formatPlate (plateInput w))
                 else formatDni (personaDoc w)))"

text \<open>The shape test of an issue: empty, or shorter than the field requires.\<close>

definition tooShort :: "ServiceConfig \<Rightarrow> string \<Rightarrow> bool" where
  "tooShort config queryValue =
     (queryValue = [] \<or> length queryValue < (if field config = Placa then 6 else 8))"

text \<open>The cache test of a non-forced issue.\<close>

definition cacheHit :: "ServiceState option \<Rightarrow> string \<Rightarrow> bool" where
  "cacheHit current queryValue =
     (case current of
        None \<Rightarrow> False
      | Some c \<Rightarrow> query c = Some queryValue \<and> truthy (data c) \<and>
                  \<not> (case error c of Some e \<Rightarrow> e \<noteq> [] | None \<Rightarrow> False) \<and> \<not> loading c)"

definition inFlight :: "ServiceState option \<Rightarrow> bool" where
  "inFlight current = (case current of Some c \<Rightarrow> loading c | None \<Rightarrow> False)"

text \<open>
  How the \<^verbatim>\<open>try\<close> block ends: it completes with the payload, the normalized record
  and the identity requests the enricher made, or it throws an error with its
  \<^verbatim>\<open>message\<close>, the local \<^verbatim>\<open>data\<close> holding what had been decoded by then.
\<close>

datatype outcome =
    Resolved jsval "parsed option" "effect list"
  | Thrown "string option" jsval

definition sunarpOf :: "parsed option \<Rightarrow> SunarpData option" where
  "sunarpOf p = (case p of Some (PSunarp sd) \<Rightarrow> Some sd | _ \<Rightarrow> None)"

definition request :: "env \<Rightarrow> string \<Rightarrow> ServiceConfig \<Rightarrow> string \<Rightarrow> outcome" where
  "request e key config queryValue =
     (case fetch e (endpoint config) (field config) queryValue of
        Rejected m \<Rightarrow> Thrown m JNull
      | Response status body decoded \<Rightarrow>
          (if \<not> ok status
           then Thrown (Some (''Error '' @ show_nat status @ '': '' @
                              (if body \<noteq> [] then body else ''sin detalle''))) JNull
           else case decoded of
                  Inl m \<Rightarrow> Thrown (Some m) JNull
                | Inr d \<Rightarrow>
                    (case parser config of
                       None \<Rightarrow> Resolved d None []
                     | Some ps \<Rightarrow>
                         (case applyParser ps (coalesce (getProp d ''resultado_crudo'') (JStr [])) d of
                            Inl err \<Rightarrow> Thrown (typeErrorMessage e err) d
                          | Inr p \<Rightarrow>
                              (if key = ''sunarp''
                               then (case enrichSunarpWithDni (fetchOwner e) (sunarpOf p) of
                                       (p', fx) \<Rightarrow> Resolved d (map_option PSunarp p') fx)
                               else Resolved d p [])))))"

text \<open>The \<^verbatim>\<open>finally\<close> block: with a signed-in user, the ledger write and the refresh.\<close>

definition ledgerEntry ::
    "env \<Rightarrow> HomeScreen \<Rightarrow> string \<Rightarrow> string \<Rightarrow> ServiceConfig \<Rightarrow> string \<Rightarrow> jsval \<Rightarrow>
     string option \<Rightarrow> LedgerEntry" where
  "ledgerEntry e w uid key config queryValue d errorMessage =
     \<lparr> userId = uid,
       serviceKey = key,
       placa = (if field config = Placa then Some queryValue else None),
       dni = (if field config = Dni then Some queryValue else None),
       payload = (field config, queryValue),
       respuesta = d,
       resumen = (if field config = Placa
                  then toUpperCase key @ '' '' @ formatPlate (plateInput w)
                  else toUpperCase key @ '' '' @ queryValue),
       success = (errorMessage = None),
       errorCode = errorMessage,
       durationMs = now e 2 - now e 0,
       rawPath = endpoint config \<rparr>"

definition logAttempt ::
    "env \<Rightarrow> HomeScreen \<Rightarrow> string \<Rightarrow> ServiceConfig \<Rightarrow> string \<Rightarrow> jsval \<Rightarrow> string option \<Rightarrow>
     HomeScreen \<Rightarrow> HomeScreen \<times> effect list" where
  "logAttempt e w key config queryValue d errorMessage w' =
     (case sessionUserId w of
        None \<Rightarrow> (w', [])
      | Some uid \<Rightarrow>
          (if uid = [] then (w', [])
           else (w'\<lparr> usage := Some (getUsageSnapshot e uid) \<rparr>,
                 [RegisterConsulta (ledgerEntry e w uid key config queryValue d errorMessage),
                  GetUsageSnapshot uid])))"

text \<open>An issue from the transition to \<^verbatim>\<open>loading\<close> on.\<close>

definition perform ::
    "env \<Rightarrow> HomeScreen \<Rightarrow> string \<Rightarrow> ServiceConfig \<Rightarrow> string \<Rightarrow> HomeScreen \<times> effect list" where
  "perform e w key config queryValue =
     (let w1 = setService w key (\<lambda>s. s\<lparr> loading := True, error := None, query := Some queryValue \<rparr>);
          sent = [Haptic, Fetch (endpoint config) (field config) queryValue]
      in case request e key config queryValue of
           Resolved d p fx \<Rightarrow>
             (let w2 = setService w1 key
                         (\<lambda>s. s\<lparr> loading := False, data := d, parsed := p, error := None,
                                 query := Some queryValue, fetchedAt := Some (now e 1) \<rparr>)
              in case logAttempt e w key config queryValue d None w2 of
                   (w3, logged) \<Rightarrow> (w3, sent @ fx @ logged))
         | Thrown m d \<Rightarrow>
             (let errorMessage = (case m of Some t \<Rightarrow> t | None \<Rightarrow> ''Error consultando'');
                  w2 = setService w1 key
                         (\<lambda>s. s\<lparr> loading := False, data := JNull, parsed := None,
                                 error := Some errorMessage, query := Some queryValue,
                                 fetchedAt := Some (now e 1) \<rparr>)
              in case logAttempt e w key config queryValue d (Some errorMessage) w2 of
                   (w3, logged) \<Rightarrow> (w3, sent @ logged)))"

text \<open>
  \<^verbatim>\<open>fetchService(key, value, {force})\<close>, run to completion on the state it was rendered
  with: the state it leaves and the calls it made.
\<close>

definition fetchService ::
    "env \<Rightarrow> HomeScreen \<Rightarrow> string \<Rightarrow> string option \<Rightarrow> bool \<Rightarrow> HomeScreen \<times> effect list" where
  "fetchService e w key v force =
     (case serviceConfigs key of
        None \<Rightarrow> (w, [])
      | Some config \<Rightarrow>
          (if \<not> fst (guardCredits (usage w)) then (w, snd (guardCredits (usage w)))
           else (let queryValue = queryValueOf w config v
                 in if tooShort config queryValue
                    then (w, [Alert (if field config = Placa then PlacaIncompleta
                                     else DniIncompleto)])
                    else if \<not> force \<and> cacheHit (serviceState w key) queryValue then (w, [])
                    else if inFlight (serviceState w key) then (w, [])
                    else perform e w key config queryValue)))"

section \<open>Scenarios\<close>

text \<open>
  Concrete collaborators and screens on which the theorems below are exercised: a
  transport that answers every request with status 200 and a small JSON object, an
  identity endpoint that is unreachable, a signed-in user with no snapshot loaded yet,
  and the plate \<^verbatim>\<open>abc-123\<close> in the input.
\<close>

definition sampleEnv :: env where
  "sampleEnv =
     \<lparr> fetch = (\<lambda>u f v. Response 200 [] (Inr (JObj [(''ok'', JBool True)]))),
       fetchOwner = (\<lambda>i. Rejected None),
       now = (\<lambda>i. 1000 + int i),
       getUsageSnapshot = (\<lambda>uid. \<lparr> creditsRemaining = Some 4, plan = None, validUntil = None \<rparr>),
       typeErrorMessage = (\<lambda>err. Some ''TypeError'') \<rparr>"

definition sampleScreen :: HomeScreen where
  "sampleScreen =
     \<lparr> plateInput = ''abc-123'', personaDoc = ''12345678'',
       serviceState = initialServiceState, usage = None, sessionUserId = Some ''user-1'' \<rparr>"

definition soatConfig :: ServiceConfig where
  "soatConfig = \<lparr> endpoint = ''http://localhost:8000/consulta-soat'',
                   parser = Some ParseSoat, field = Placa, scope = Vehiculo \<rparr>"

text \<open>The SOAT service settled with a result for \<^verbatim>\<open>ABC123\<close>, and the same still loading.\<close>

definition settledSoat :: ServiceState where
  "settledSoat = \<lparr> loading = False, error = None, data = JObj [(''ok'', JBool True)],
                    parsed = None, query = Some ''ABC123'', fetchedAt = Some 1001 \<rparr>"

definition settledScreen :: HomeScreen where
  "settledScreen = sampleScreen\<lparr> serviceState := initialServiceState(''soat'' \<mapsto> settledSoat) \<rparr>"

definition loadingScreen :: HomeScreen where
  "loadingScreen =
     sampleScreen\<lparr> serviceState :=
                     initialServiceState(''soat'' \<mapsto> settledSoat\<lparr> loading := True \<rparr>) \<rparr>"

text \<open>The same user with a snapshot that has no credit left.\<close>

definition exhausted :: UsageSnapshot where
  "exhausted = \<lparr> creditsRemaining = Some 0, plan = Some ''Free'', validUntil = None \<rparr>"

definition exhaustedScreen :: HomeScreen where
  "exhaustedScreen = sampleScreen\<lparr> usage := Some exhausted \<rparr>"

text \<open>The transport answering 500 to every request, and a screen with nobody signed in.\<close>

definition failingEnv :: env where
  "failingEnv = sampleEnv\<lparr> fetch := (\<lambda>u f v. Response 500 ''boom'' (Inl ''not json'')) \<rparr>"

definition anonymousScreen :: HomeScreen where
  "anonymousScreen = sampleScreen\<lparr> sessionUserId := None \<rparr>"

text \<open>The identity service, as the registry has it.\<close>

definition dniperuConfig :: ServiceConfig where
  "dniperuConfig = \<lparr> endpoint = ''http://localhost:8000/consulta-dni-peru'',
                      parser = Some ParseDniPeru, field = Dni, scope = Persona \<rparr>"

text \<open>
  An identity lookup fails when the request is rejected, the status is not a success,
  or the body does not decode: the three ways into the \<^verbatim>\<open>catch\<close> of the enricher.
\<close>

definition lookupFails :: "response \<Rightarrow> bool" where
  "lookupFails r =
     (case r of
        Rejected m \<Rightarrow> True
      | Response status body decoded \<Rightarrow>
          (if ok status then (case decoded of Inl m \<Rightarrow> True | Inr d \<Rightarrow> False) else True))"

text \<open>The number the enricher derives from an owner: \<^verbatim>\<open>formatDni(prop.documento ?? '')\<close>.\<close>

definition ownerDni :: "SunarpOwner \<Rightarrow> string" where
  "ownerDni owner = formatDni (case documento owner of Some d \<Rightarrow> d | None \<Rightarrow> [])"

text \<open>
  An ownership record with three owners, and an identity endpoint that answers the
  first and the third request and fails the second with status 500.
\<close>

definition ownerWith :: "string \<Rightarrow> string \<Rightarrow> SunarpOwner" where
  "ownerWith n d = \<lparr> nombre = JStr n, documento = Some d, porcentaje = JStr [],
                      condicion = JStr [], reniec = None \<rparr>"

definition threeOwners :: SunarpData where
  "threeOwners =
     \<lparr> propietarios = [ownerWith ''Ana Lopez'' ''12345678'', ownerWith ''Luis Rojas'' ''87654321'',
                       ownerWith ''Eva Diaz'' ''1111-2222''],
       coincidencias = [], dniPropietario = None, propietarioUsado = None,
       placa = JStr ''ABC123'', vin = JStr [], partida = JStr [], oficina = JStr [],
       captchaDetectado = JUndef, captchaValido = False, imagenResultado = JStr [] \<rparr>"

definition identityAnswer :: jsval where
  "identityAnswer = JObj [(''nombres'', JStr ''Ana''), (''apellido_paterno'', JStr ''Lopez'')]"

definition threeLookups :: "nat \<Rightarrow> response" where
  "threeLookups i =
     (if i = 1 then Response 500 ''down'' (Inl ''no body'')
      else Response 200 [] (Inr identityAnswer))"




section \<open>Properties of the orchestrator\<close>

lemma soat_registered: "serviceConfigs ''soat'' = Some soatConfig"
  by (simp add: serviceConfigs_def serviceTable_def soatConfig_def)


text \<open>
  C1. A non-forced issue of a registered service whose query value equals the stored
  query of a settled-success state (data present, no error, not loading) leaves the
  whole screen state as it was, the stored result included, and makes no transport
  call and no ledger write. This holds for every query value, valid or not.
\<close>

theorem cache_hit_reused:
  assumes "serviceConfigs key = Some config"
    and "serviceState w key = Some c"
    and "query c = Some (queryValueOf w config v)"
    and "truthy (data c)"
    and "error c = None \<or> error c = Some []"
    and "\<not> loading c"
  shows "fst (fetchService e w key v False) = w \<and>
         serviceState (fst (fetchService e w key v False)) key = Some c \<and>
         filter isFetch (snd (fetchService e w key v False)) = [] \<and>
         filter isLedgerWrite (snd (fetchService e w key v False)) = []"
  using assms
  by (auto simp add: fetchService_def guardCredits_def cacheHit_def isLedgerWrite_def
        isFetch_def Let_def split: option.splits)

theorem cache_hit_reused_witness:
  "fst (fetchService sampleEnv settledScreen ''soat'' None False) = settledScreen \<and>
   serviceState (fst (fetchService sampleEnv settledScreen ''soat'' None False)) ''soat'' =
     Some settledSoat \<and>
   filter isFetch (snd (fetchService sampleEnv settledScreen ''soat'' None False)) = [] \<and>
   filter isLedgerWrite (snd (fetchService sampleEnv settledScreen ''soat'' None False)) = []"
proof (rule cache_hit_reused[OF soat_registered])
  show "serviceState settledScreen ''soat'' = Some settledSoat"
    by (simp add: settledScreen_def)
  show "query settledSoat = Some (queryValueOf settledScreen soatConfig None)"
    by code_simp
  show "truthy (data settledSoat)"
    by (simp add: settledSoat_def)
  show "error settledSoat = None \<or> error settledSoat = Some []"
    by (simp add: settledSoat_def)
  show "\<not> loading settledSoat"
    by (simp add: settledSoat_def)
qed

text \<open>
  C3, as the code has it. A forced issue of a registered service that passes the credit
  gate and the length test makes the transport call whatever the cache holds, a
  settled result for the same query value included, provided no call for that service
  is in flight: its first two effects are the haptic tick and the \<^verbatim>\<open>POST\<close> of the
  query value to the endpoint of the service. While a call for the service is in
  flight, the forced issue changes nothing and calls nothing.
\<close>

theorem forced_issue_calls_transport:
  assumes "serviceConfigs key = Some config"
    and "hasCredits (usage w)"
    and "\<not> tooShort config (queryValueOf w config v)"
  shows "(\<not> inFlight (serviceState w key) \<longrightarrow>
            take 2 (snd (fetchService e w key v True)) =
              [Haptic, Fetch (endpoint config) (field config) (queryValueOf w config v)]) \<and>
         (inFlight (serviceState w key) \<longrightarrow> fetchService e w key v True = (w, []))"
  using assms
  by (simp add: fetchService_def guardCredits_def perform_def Let_def
        split: outcome.splits prod.splits)

theorem forced_issue_calls_transport_witness:
  "take 2 (snd (fetchService sampleEnv settledScreen ''soat'' None True)) =
     [Haptic, Fetch (endpoint soatConfig) (field soatConfig)
                (queryValueOf settledScreen soatConfig None)] \<and>
   snd (fetchService sampleEnv loadingScreen ''soat'' None True) = []"
proof -
  have gate: "hasCredits (usage settledScreen)" "hasCredits (usage loadingScreen)"
    by (simp_all add: settledScreen_def loadingScreen_def sampleScreen_def hasCredits_def)
  have long: "\<not> tooShort soatConfig (queryValueOf settledScreen soatConfig None)"
    "\<not> tooShort soatConfig (queryValueOf loadingScreen soatConfig None)"
    by code_simp+
  have idle: "\<not> inFlight (serviceState settledScreen ''soat'')"
    by (simp add: settledScreen_def inFlight_def settledSoat_def)
  have busy: "inFlight (serviceState loadingScreen ''soat'')"
    by (simp add: loadingScreen_def inFlight_def settledSoat_def)
  show ?thesis
    using forced_issue_calls_transport[OF soat_registered gate(1) long(1), of sampleEnv]
      forced_issue_calls_transport[OF soat_registered gate(2) long(2), of sampleEnv]
      idle busy
    by simp
qed

text \<open>
  C3 as stated fails: while a call for the service is in flight (\<^verbatim>\<open>loading\<close>), a
  forced issue with a valid plate and an open gate returns without any transport call.
\<close>

theorem forced_while_loading_counterexample:
  "hasCredits (usage loadingScreen) \<and>
   \<not> tooShort soatConfig ''ABC123'' \<and>
   snd (fetchService sampleEnv loadingScreen ''soat'' (Some ''ABC123'') True) = []"
  by code_simp

text \<open>
  C4. With a snapshot whose remaining credits are zero or negative, an issue leaves the
  whole screen state as it was (no service state changes, none turns to loading) and
  makes no ledger write and no transport call.
\<close>

theorem gate_blocked_no_ledger:
  assumes "usage w = Some u"
    and "creditsRemaining u = Some n"
    and "n \<le> 0"
  shows "fst (fetchService e w key v force) = w \<and>
         filter isLedgerWrite (snd (fetchService e w key v force)) = [] \<and>
         filter isFetch (snd (fetchService e w key v force)) = []"
  using assms
  by (simp add: fetchService_def guardCredits_def hasCredits_def isLedgerWrite_def isFetch_def
        split: option.splits)

theorem gate_blocked_no_ledger_witness:
  "fst (fetchService sampleEnv exhaustedScreen ''soat'' (Some ''ABC123'') True) = exhaustedScreen \<and>
   filter isLedgerWrite
     (snd (fetchService sampleEnv exhaustedScreen ''soat'' (Some ''ABC123'') True)) = [] \<and>
   filter isFetch
     (snd (fetchService sampleEnv exhaustedScreen ''soat'' (Some ''ABC123'') True)) = []"
proof (rule gate_blocked_no_ledger)
  show "usage exhaustedScreen = Some exhausted"
    by (simp add: exhaustedScreen_def)
  show "creditsRemaining exhausted = Some 0"
    by (simp add: exhausted_def)
  show "(0::int) \<le> 0"
    by simp
qed






subsection \<open>The ledger\<close>

lemma enrichOwner_no_ledger:
  "filter isLedgerWrite (snd (enrichOwner cfg r ow)) = []"
  by (simp add: enrichOwner_def Let_def isLedgerWrite_def split: response.splits sum.splits)

lemma enrich_no_ledger_snd:
  "filter isLedgerWrite (snd (enrichSunarpWithDni lookup p)) = []"
  by (auto simp add: enrichSunarpWithDni_def Let_def filter_concat enrichOwner_no_ledger
        split: option.splits prod.splits)

lemma enrich_no_ledger:
  "enrichSunarpWithDni lookup p = (p', fx) \<Longrightarrow> filter isLedgerWrite fx = []"
  using enrich_no_ledger_snd[of lookup p] by simp

lemma request_no_ledger:
  "request e key config qv = Resolved d p fx \<Longrightarrow> filter isLedgerWrite fx = []"
  by (auto simp add: request_def enrich_no_ledger
        split: response.splits sum.splits option.splits if_splits prod.splits)

text \<open>
  C2, as the code has it. An issue that reaches the transport call (registered service,
  open gate, query value long enough, forced or not answered by the cache, no call in
  flight) writes the ledger only for a signed-in user. With a user id it makes, after
  the transport call and the identity requests of the enricher, exactly one ledger
  write followed by the snapshot refresh; the entry carries the user, the service, the
  query value, the endpoint, the duration, and the payload, success flag and error
  code of the outcome, whether the call succeeded or failed. Without a user id it
  writes nothing.
\<close>

theorem attempt_logged_once:
  assumes "serviceConfigs key = Some config"
    and "hasCredits (usage w)"
    and "qv = queryValueOf w config v"
    and "\<not> tooShort config qv"
    and "force \<or> \<not> cacheHit (serviceState w key) qv"
    and "\<not> inFlight (serviceState w key)"
  shows "case sessionUserId w of
           None \<Rightarrow> filter isLedgerWrite (snd (fetchService e w key v force)) = [] \<and>
                  usage (fst (fetchService e w key v force)) = usage w
         | Some uid \<Rightarrow>
             if uid = []
             then filter isLedgerWrite (snd (fetchService e w key v force)) = [] \<and>
                  usage (fst (fetchService e w key v force)) = usage w
             else (\<exists>entry fx.
                    snd (fetchService e w key v force) =
                      [Haptic, Fetch (endpoint config) (field config) qv] @ fx @
                      [RegisterConsulta entry, GetUsageSnapshot uid] \<and>
                    filter isLedgerWrite fx = [] \<and>
                    userId entry = uid \<and> serviceKey entry = key \<and>
                    payload entry = (field config, qv) \<and>
                    rawPath entry = endpoint config \<and>
                    durationMs entry = now e 2 - now e 0 \<and>
                    (case request e key config qv of
                       Resolved d p fx' \<Rightarrow>
                         success entry \<and> errorCode entry = None \<and> respuesta entry = d
                     | Thrown m d \<Rightarrow>
                         \<not> success entry \<and> respuesta entry = d \<and>
                         errorCode entry =
                           Some (case m of Some t \<Rightarrow> t | None \<Rightarrow> ''Error consultando'')) \<and>
                    usage (fst (fetchService e w key v force)) = Some (getUsageSnapshot e uid))"
proof -
  have run: "fetchService e w key v force = perform e w key config qv"
    using assms by (auto simp add: fetchService_def guardCredits_def Let_def)
  show ?thesis
  proof (cases "request e key config qv")
    case (Resolved d p fx)
    then show ?thesis
      using request_no_ledger[OF Resolved]
      by (simp add: run perform_def logAttempt_def ledgerEntry_def isLedgerWrite_def Let_def
            setService_def split: option.splits)
  next
    case (Thrown m d)
    then show ?thesis
      by (simp add: run perform_def logAttempt_def ledgerEntry_def isLedgerWrite_def Let_def
            setService_def split: option.splits)
  qed
qed

theorem attempt_logged_once_witness:
  "filter isLedgerWrite (snd (fetchService failingEnv sampleScreen ''soat'' None True)) =
     [RegisterConsulta
        \<lparr> userId = ''user-1'', serviceKey = ''soat'', placa = Some ''ABC123'', dni = None,
          payload = (Placa, ''ABC123''), respuesta = JNull, resumen = ''SOAT ABC-123'',
          success = False, errorCode = Some ''Error 500: boom'', durationMs = 2,
          rawPath = ''http://localhost:8000/consulta-soat'' \<rparr>] \<and>
   (case sessionUserId sampleScreen of
      None \<Rightarrow> filter isLedgerWrite (snd (fetchService failingEnv sampleScreen ''soat'' None True)) = [] \<and>
             usage (fst (fetchService failingEnv sampleScreen ''soat'' None True)) = usage sampleScreen
    | Some uid \<Rightarrow>
        if uid = []
        then filter isLedgerWrite (snd (fetchService failingEnv sampleScreen ''soat'' None True)) = [] \<and>
             usage (fst (fetchService failingEnv sampleScreen ''soat'' None True)) = usage sampleScreen
        else (\<exists>entry fx.
               snd (fetchService failingEnv sampleScreen ''soat'' None True) =
                 [Haptic, Fetch (endpoint soatConfig) (field soatConfig) ''ABC123''] @ fx @
                 [RegisterConsulta entry, GetUsageSnapshot uid] \<and>
               filter isLedgerWrite fx = [] \<and>
               userId entry = uid \<and> serviceKey entry = ''soat'' \<and>
               payload entry = (field soatConfig, ''ABC123'') \<and>
               rawPath entry = endpoint soatConfig \<and>
               durationMs entry = now failingEnv 2 - now failingEnv 0 \<and>
               (case request failingEnv ''soat'' soatConfig ''ABC123'' of
                  Resolved d p fx' \<Rightarrow>
                    success entry \<and> errorCode entry = None \<and> respuesta entry = d
                | Thrown m d \<Rightarrow>
                    \<not> success entry \<and> respuesta entry = d \<and>
                    errorCode entry =
                      Some (case m of Some t \<Rightarrow> t | None \<Rightarrow> ''Error consultando'')) \<and>
               usage (fst (fetchService failingEnv sampleScreen ''soat'' None True)) =
                 Some (getUsageSnapshot failingEnv uid)))"
proof
  show "filter isLedgerWrite (snd (fetchService failingEnv sampleScreen ''soat'' None True)) =
     [RegisterConsulta
        \<lparr> userId = ''user-1'', serviceKey = ''soat'', placa = Some ''ABC123'', dni = None,
          payload = (Placa, ''ABC123''), respuesta = JNull, resumen = ''SOAT ABC-123'',
          success = False, errorCode = Some ''Error 500: boom'', durationMs = 2,
          rawPath = ''http://localhost:8000/consulta-soat'' \<rparr>]"
    by code_simp
next
  have gate: "hasCredits (usage sampleScreen)"
    by (simp add: sampleScreen_def hasCredits_def)
  have qv: "''ABC123'' = queryValueOf sampleScreen soatConfig None"
    by code_simp
  have long: "\<not> tooShort soatConfig ''ABC123''"
    by code_simp
  have idle: "\<not> inFlight (serviceState sampleScreen ''soat'')"
    by code_simp
  show "case sessionUserId sampleScreen of
      None \<Rightarrow> filter isLedgerWrite (snd (fetchService failingEnv sampleScreen ''soat'' None True)) = [] \<and>
             usage (fst (fetchService failingEnv sampleScreen ''soat'' None True)) = usage sampleScreen
    | Some uid \<Rightarrow>
        if uid = []
        then filter isLedgerWrite (snd (fetchService failingEnv sampleScreen ''soat'' None True)) = [] \<and>
             usage (fst (fetchService failingEnv sampleScreen ''soat'' None True)) = usage sampleScreen
        else (\<exists>entry fx.
               snd (fetchService failingEnv sampleScreen ''soat'' None True) =
                 [Haptic, Fetch (endpoint soatConfig) (field soatConfig) ''ABC123''] @ fx @
                 [RegisterConsulta entry, GetUsageSnapshot uid] \<and>
               filter isLedgerWrite fx = [] \<and>
               userId entry = uid \<and> serviceKey entry = ''soat'' \<and>
               payload entry = (field soatConfig, ''ABC123'') \<and>
               rawPath entry = endpoint soatConfig \<and>
               durationMs entry = now failingEnv 2 - now failingEnv 0 \<and>
               (case request failingEnv ''soat'' soatConfig ''ABC123'' of
                  Resolved d p fx' \<Rightarrow>
                    success entry \<and> errorCode entry = None \<and> respuesta entry = d
                | Thrown m d \<Rightarrow>
                    \<not> success entry \<and> respuesta entry = d \<and>
                    errorCode entry =
                      Some (case m of Some t \<Rightarrow> t | None \<Rightarrow> ''Error consultando'')) \<and>
               usage (fst (fetchService failingEnv sampleScreen ''soat'' None True)) =
                 Some (getUsageSnapshot failingEnv uid))"
    by (rule attempt_logged_once[OF soat_registered gate qv long _ idle]) simp
qed

text \<open>
  C2 as stated fails: with nobody signed in, a forced issue with a valid plate passes
  the gate and the length test and calls the transport, yet no ledger entry is written
  and no snapshot is fetched.
\<close>

theorem attempt_unlogged_counterexample:
  "hasCredits (usage anonymousScreen) \<and>
   \<not> tooShort soatConfig ''ABC123'' \<and>
   snd (fetchService sampleEnv anonymousScreen ''soat'' (Some ''ABC123'') True) =
     [Haptic, Fetch ''http://localhost:8000/consulta-soat'' Placa ''ABC123'']"
  by code_simp

subsection \<open>The shape of the query value\<close>

lemma alnum_table:
  "list_all (\<lambda>c. c \<noteq> CHR 0xDF \<and> isAlnum (toUpperChar c) \<and> c \<noteq> CHR ''-'')
     ''ABCDEFGHIJKLMNOPQRSTUVWXYZabcdefghijklmnopqrstuvwxyz0123456789''"
  by code_simp

lemma alnum_upper:
  "isAlnum c \<Longrightarrow> c \<noteq> CHR 0xDF \<and> isAlnum (toUpperChar c) \<and> c \<noteq> CHR ''-''"
  using alnum_table unfolding isAlnum_def list_all_iff by blast

lemma upper_alnum:
  "list_all isAlnum s \<Longrightarrow>
     toUpperCase s = map toUpperChar s \<and> list_all isAlnum (toUpperCase s)"
  by (induction s) (auto simp: toUpperCase_def dest: alnum_upper)

text \<open>Taking the dash out of the formatted plate gives back its six (or fewer) characters.\<close>

lemma clean_plate:
  "list_all isAlnum (take 6 (toUpperCase (filter isAlnum p))) \<and>
   remove1 CHR ''-'' (formatPlate p) = take 6 (toUpperCase (filter isAlnum p))"
proof -
  define clean where "clean = take 6 (toUpperCase (filter isAlnum p))"
  have "list_all isAlnum (filter isAlnum p)"
    by (simp add: list_all_iff)
  then have "list_all isAlnum (toUpperCase (filter isAlnum p))"
    using upper_alnum by blast
  then have al: "list_all isAlnum clean"
    unfolding clean_def list_all_iff by (auto dest: in_set_takeD)
  then have nodash: "CHR ''-'' \<notin> set clean"
    unfolding list_all_iff using alnum_upper by blast
  have len: "length clean \<le> 6"
    by (simp add: clean_def)
  have parts: "take 3 clean @ take 3 (drop 3 clean) = clean"
    using len by simp
  have fp: "formatPlate p =
              take 3 clean @ (if 3 < length clean then ''-'' else []) @ take 3 (drop 3 clean)"
    by (simp add: formatPlate_def clean_def Let_def)
  have nd3: "CHR ''-'' \<notin> set (take 3 clean)"
    using nodash by (auto dest: in_set_takeD)
  have "remove1 CHR ''-'' (formatPlate p) = clean"
  proof (cases "3 < length clean")
    case True
    then show ?thesis
      using nd3 parts by (simp add: fp remove1_append)
  next
    case False
    then show ?thesis
      using nodash parts by (simp add: fp remove1_idem)
  qed
  then show ?thesis
    using al by (simp add: clean_def)
qed

lemma derived_shape:
  assumes "\<not> tooShort config (queryValueOf w config None)"
  shows "if field config = Placa
         then length (queryValueOf w config None) = 6 \<and>
              list_all isAlnum (queryValueOf w config None)
         else length (queryValueOf w config None) = 8 \<and>
              list_all isDigit (queryValueOf w config None)"
proof (cases "field config = Placa")
  case True
  then show ?thesis
    using assms clean_plate[of "plateInput w"]
    by (auto simp add: queryValueOf_def tooShort_def min_def)
next
  case False
  then show ?thesis
    using assms
    by (auto simp add: queryValueOf_def tooShort_def formatDni_def list_all_iff
          dest: in_set_takeD)
qed

text \<open>
  C5, as the code has it. The credit gate is checked first. An issue of a registered
  service that passes the gate then tests the length of its query value (six characters
  at least for a plate, eight at least for a national id); a value that is empty or
  too short aborts with the validation alert of its field and nothing else: the screen
  state is unchanged, no transport call and no ledger write. A value derived from the
  inputs that passes the test is exactly six alphanumeric characters for a plate and
  exactly eight digits for a national id.
\<close>

theorem short_value_aborts:
  assumes "serviceConfigs key = Some config"
  shows "(\<not> hasCredits (usage w) \<longrightarrow>
            fetchService e w key v force = (w, [Alert SinCreditos])) \<and>
         (hasCredits (usage w) \<and> tooShort config (queryValueOf w config v) \<longrightarrow>
            fetchService e w key v force =
              (w, [Alert (if field config = Placa then PlacaIncompleta else DniIncompleto)])) \<and>
         (\<not> tooShort config (queryValueOf w config None) \<longrightarrow>
            (if field config = Placa
             then length (queryValueOf w config None) = 6 \<and>
                  list_all isAlnum (queryValueOf w config None)
             else length (queryValueOf w config None) = 8 \<and>
                  list_all isDigit (queryValueOf w config None)))"
  using assms derived_shape[of config w]
  by (simp add: fetchService_def guardCredits_def Let_def)

theorem short_value_aborts_witness:
  "fst (fetchService sampleEnv (exhaustedScreen\<lparr> plateInput := ''ab-1'' \<rparr>) ''soat'' None True) =
     exhaustedScreen\<lparr> plateInput := ''ab-1'' \<rparr> \<and>
   snd (fetchService sampleEnv (exhaustedScreen\<lparr> plateInput := ''ab-1'' \<rparr>) ''soat'' None True) =
     [Alert SinCreditos] \<and>
   fst (fetchService sampleEnv (sampleScreen\<lparr> plateInput := ''ab-1'' \<rparr>) ''soat'' None True) =
     sampleScreen\<lparr> plateInput := ''ab-1'' \<rparr> \<and>
   snd (fetchService sampleEnv (sampleScreen\<lparr> plateInput := ''ab-1'' \<rparr>) ''soat'' None True) =
     [Alert PlacaIncompleta] \<and>
   length (queryValueOf sampleScreen soatConfig None) = 6 \<and>
   list_all isAlnum (queryValueOf sampleScreen soatConfig None)"
proof -
  have closed: "\<not> hasCredits (usage (exhaustedScreen\<lparr> plateInput := ''ab-1'' \<rparr>))"
    by (simp add: exhaustedScreen_def exhausted_def hasCredits_def)
  have gate: "hasCredits (usage (sampleScreen\<lparr> plateInput := ''ab-1'' \<rparr>))"
    by (simp add: sampleScreen_def hasCredits_def)
  have short: "tooShort soatConfig
                 (queryValueOf (sampleScreen\<lparr> plateInput := ''ab-1'' \<rparr>) soatConfig None)"
    by code_simp
  have long: "\<not> tooShort soatConfig (queryValueOf sampleScreen soatConfig None)"
    by code_simp
  have placa: "field soatConfig = Placa"
    by (simp add: soatConfig_def)
  have a: "fetchService sampleEnv (exhaustedScreen\<lparr> plateInput := ''ab-1'' \<rparr>) ''soat'' None True =
             (exhaustedScreen\<lparr> plateInput := ''ab-1'' \<rparr>, [Alert SinCreditos])"
    using short_value_aborts[OF soat_registered, of "exhaustedScreen\<lparr> plateInput := ''ab-1'' \<rparr>"
            sampleEnv None True] closed
    by blast
  have b: "fetchService sampleEnv (sampleScreen\<lparr> plateInput := ''ab-1'' \<rparr>) ''soat'' None True =
             (sampleScreen\<lparr> plateInput := ''ab-1'' \<rparr>,
              [Alert (if field soatConfig = Placa then PlacaIncompleta else DniIncompleto)])"
    using short_value_aborts[OF soat_registered, of "sampleScreen\<lparr> plateInput := ''ab-1'' \<rparr>"
            sampleEnv None True] gate short
    by blast
  have c: "length (queryValueOf sampleScreen soatConfig None) = 6 \<and>
           list_all isAlnum (queryValueOf sampleScreen soatConfig None)"
    using short_value_aborts[OF soat_registered, of sampleScreen sampleEnv None True] long placa
    by simp
  show ?thesis
    using a b c by (simp add: placa)
qed

text \<open>
  C5 as stated fails: the gate comes before the shape test. With no credit left and a
  plate of three characters in the input, the issue surfaces the out-of-credits alert
  and no validation error.
\<close>

theorem gate_before_shape_counterexample:
  "tooShort soatConfig (queryValueOf (exhaustedScreen\<lparr> plateInput := ''ab-1'' \<rparr>) soatConfig None) \<and>
   snd (fetchService sampleEnv (exhaustedScreen\<lparr> plateInput := ''ab-1'' \<rparr>) ''soat'' None False) =
     [Alert SinCreditos]"
  by code_simp

section \<open>Properties of the normalizers\<close>

lemma orElse_default: "orElse a (JStr []) = JStr [] \<or> truthy (orElse a (JStr []))"
  by (simp add: orElse_def)

lemma orElse_default_arr: "orElse a (JArr []) = JArr [] \<or> truthy (orElse a (JArr []))"
  by (simp add: orElse_def)

text \<open>
  C10. Through the registry's dispatch the licence, identity and debt-registry
  normalizers give a record for every first argument and every payload, never the null
  result and never an exception. On an empty payload every field is the empty string,
  the empty array or zero; on any payload each field is either that default or a truthy
  value taken from the payload.
\<close>

theorem never_null:
  "applyParser ParseLicencia raw full = Inr (Some (PLicencia (parseLicencia raw full))) \<and>
   applyParser ParseDniPeru raw full = Inr (Some (PDniPeru (parseDniPeru raw full))) \<and>
   applyParser ParseRedam raw full = Inr (Some (PRedam (parseRedam raw full))) \<and>
   parseLicencia raw (JObj []) =
     \<lparr> numero = JStr [], clase = JStr [], restricciones = JStr [], estado = JStr [],
       vencimiento = JStr [], nombres = JStr [], puntosFirmes = JStr [], infracciones = JStr [],
       graves = JStr [], muyGraves = JStr [], tramites = JArr [], bonificaciones = JArr [] \<rparr> \<and>
   parseDniPeru raw (JObj []) =
     \<lparr> nombres = JStr [], apellidoPaterno = JStr [], apellidoMaterno = JStr [],
       codigoVerificacion = JStr [], direccion = JStr [] \<rparr> \<and>
   parseRedam raw (JObj []) = \<lparr> total = 0, detalle = [] \<rparr> \<and>
   list_all (\<lambda>x. x = JStr [] \<or> truthy x)
     [numero (parseLicencia raw full), LicenciaData.clase (parseLicencia raw full),
      restricciones (parseLicencia raw full), LicenciaData.estado (parseLicencia raw full),
      vencimiento (parseLicencia raw full), LicenciaData.nombres (parseLicencia raw full),
      puntosFirmes (parseLicencia raw full), infracciones (parseLicencia raw full),
      graves (parseLicencia raw full), muyGraves (parseLicencia raw full),
      DniData.nombres (parseDniPeru raw full), apellidoPaterno (parseDniPeru raw full),
      apellidoMaterno (parseDniPeru raw full), codigoVerificacion (parseDniPeru raw full),
      direccion (parseDniPeru raw full)] \<and>
   list_all (\<lambda>x. x = JArr [] \<or> truthy x)
     [tramites (parseLicencia raw full), bonificaciones (parseLicencia raw full)] \<and>
   (total (parseRedam raw full) = 0 \<and> detalle (parseRedam raw full) = [] \<or>
    (\<exists>xs. xs \<noteq> [] \<and> total (parseRedam raw full) = length xs \<and>
          detalle (parseRedam raw full) = take 3 xs))"
proof -
  have a: "applyParser ParseLicencia raw full = Inr (Some (PLicencia (parseLicencia raw full))) \<and>
   applyParser ParseDniPeru raw full = Inr (Some (PDniPeru (parseDniPeru raw full))) \<and>
   applyParser ParseRedam raw full = Inr (Some (PRedam (parseRedam raw full)))"
    by (simp add: applyParser_def)
  have b: "parseLicencia raw (JObj []) =
     \<lparr> numero = JStr [], clase = JStr [], restricciones = JStr [], estado = JStr [],
       vencimiento = JStr [], nombres = JStr [], puntosFirmes = JStr [], infracciones = JStr [],
       graves = JStr [], muyGraves = JStr [], tramites = JArr [], bonificaciones = JArr [] \<rparr>"
    by (simp add: parseLicencia_def orElse_def Let_def)
  have c: "parseDniPeru raw (JObj []) =
     \<lparr> nombres = JStr [], apellidoPaterno = JStr [], apellidoMaterno = JStr [],
       codigoVerificacion = JStr [], direccion = JStr [] \<rparr>"
    by (simp add: parseDniPeru_def orElse_def Let_def)
  have d: "parseRedam raw (JObj []) = \<lparr> total = 0, detalle = [] \<rparr>"
    by (simp add: parseRedam_def orElse_def Let_def)
  have e: "list_all (\<lambda>x. x = JStr [] \<or> truthy x)
     [numero (parseLicencia raw full), LicenciaData.clase (parseLicencia raw full),
      restricciones (parseLicencia raw full), LicenciaData.estado (parseLicencia raw full),
      vencimiento (parseLicencia raw full), LicenciaData.nombres (parseLicencia raw full),
      puntosFirmes (parseLicencia raw full), infracciones (parseLicencia raw full),
      graves (parseLicencia raw full), muyGraves (parseLicencia raw full),
      DniData.nombres (parseDniPeru raw full), apellidoPaterno (parseDniPeru raw full),
      apellidoMaterno (parseDniPeru raw full), codigoVerificacion (parseDniPeru raw full),
      direccion (parseDniPeru raw full)]"
    by (simp add: parseLicencia_def parseDniPeru_def Let_def orElse_default)
  have f: "list_all (\<lambda>x. x = JArr [] \<or> truthy x)
     [tramites (parseLicencia raw full), bonificaciones (parseLicencia raw full)]"
    by (simp add: parseLicencia_def Let_def orElse_default_arr)
  have g: "total (parseRedam raw full) = 0 \<and> detalle (parseRedam raw full) = [] \<or>
    (\<exists>xs. xs \<noteq> [] \<and> total (parseRedam raw full) = length xs \<and>
          detalle (parseRedam raw full) = take 3 xs)"
    by (cases "orElse (getProp (orElse (getProp full ''datos'') full) ''registros'') (JArr [])")
       (auto simp add: parseRedam_def Let_def)
  show ?thesis
    using a b c d e f g by blast
qed



subsection \<open>When a normalizer returns null\<close>











section \<open>Properties of the enricher\<close>

lemma dniperu_registered: "serviceConfigs ''dniperu'' = Some dniperuConfig"
  by (simp add: serviceConfigs_def serviceTable_def dniperuConfig_def)

lemma ownerDni_length: "length (ownerDni owner) \<le> 8"
  by (simp add: ownerDni_def formatDni_def)

lemma enrichOwner_documento: "documento (fst (enrichOwner cfg r owner)) = documento owner"
  by (simp add: enrichOwner_def Let_def split: response.splits sum.splits)

lemma enrichOwner_fail: "lookupFails r \<Longrightarrow> fst (enrichOwner cfg r owner) = owner"
  by (simp add: enrichOwner_def lookupFails_def Let_def
        split: response.splits sum.splits if_splits)

lemma enrichOwner_ok:
  assumes "r = Response st body (Inr d)" and "ok st" and "length (ownerDni owner) = 8"
  shows "\<exists>rd. reniec (fst (enrichOwner cfg r owner)) = Some rd \<and>
              DniData.truncate rd =
                parseDniPeru (coalesce (getProp d ''resultado_crudo'') (JStr [])) d"
  using assms
  by (auto simp add: enrichOwner_def ownerDni_def Let_def DniData.truncate_def
        DniData.extend_def ReniecData.fields_def)

lemma enrichOwner_requests:
  "snd (enrichOwner cfg r owner) =
     (if length (ownerDni owner) = 8
      then [Fetch (endpoint cfg) (field cfg) (ownerDni owner)] else [])"
  using ownerDni_length[of owner]
  by (auto simp add: enrichOwner_def ownerDni_def Let_def split: response.splits sum.splits)

lemma enrich_owners:
  "enrichSunarpWithDni lookup (Some sd) =
     (Some (sd\<lparr> propietarios :=
                  map (\<lambda>(i, owner). fst (enrichOwner dniperuConfig (lookup i) owner))
                    (enumerate 0 (propietarios sd)) \<rparr>),
      concat (map (\<lambda>(i, owner). snd (enrichOwner dniperuConfig (lookup i) owner))
                (enumerate 0 (propietarios sd))))"
proof (cases "propietarios sd = []")
  case True
  then show ?thesis
    by (simp add: enrichSunarpWithDni_def)
next
  case False
  have "endpoint dniperuConfig \<noteq> []"
    by (simp add: dniperuConfig_def)
  then show ?thesis
    using False
    by (simp add: enrichSunarpWithDni_def dniperu_registered Let_def split_def comp_def)
qed

lemma concat_requests:
  "concat (map (\<lambda>(i, owner). snd (enrichOwner cfg (lookup i) owner)) (enumerate n owners)) =
     map (\<lambda>owner. Fetch (endpoint cfg) (field cfg) (ownerDni owner))
       (filter (\<lambda>owner. length (ownerDni owner) = 8) owners)"
  by (induction owners arbitrary: n) (simp_all add: enrichOwner_requests)

text \<open>
  C8. The enricher returns the ownership record with the same number of owners in the
  same positions (every owner keeps its document), all other fields untouched. An
  owner whose identity lookup fails (rejected request, status outside 2xx, or a body
  that does not decode) is returned unchanged; an owner with an eight-digit number
  whose lookup succeeds carries the identity parsed from the answer, whatever happens
  to the lookups of the other owners. One identity request is made for each owner with
  an eight-digit number, in the order of the owners.
\<close>

theorem enricher_partial_failure:
  "\<exists>sd'. enrichSunarpWithDni lookup (Some sd) =
           (Some sd',
            map (\<lambda>owner. Fetch ''http://localhost:8000/consulta-dni-peru'' Dni (ownerDni owner))
              (filter (\<lambda>owner. length (ownerDni owner) = 8) (propietarios sd))) \<and>
         sd' = sd\<lparr> propietarios := propietarios sd' \<rparr> \<and>
         length (propietarios sd') = length (propietarios sd) \<and>
         (\<forall>i < length (propietarios sd).
            documento (propietarios sd' ! i) = documento (propietarios sd ! i) \<and>
            (lookupFails (lookup i) \<longrightarrow> propietarios sd' ! i = propietarios sd ! i) \<and>
            (\<forall>st body d.
               lookup i = Response st body (Inr d) \<and> ok st \<and>
               length (ownerDni (propietarios sd ! i)) = 8 \<longrightarrow>
               (\<exists>rd. reniec (propietarios sd' ! i) = Some rd \<and>
                     DniData.truncate rd =
                       parseDniPeru (coalesce (getProp d ''resultado_crudo'') (JStr [])) d)))"
proof -
  define owners' where
    "owners' = map (\<lambda>(i, owner). fst (enrichOwner dniperuConfig (lookup i) owner))
                 (enumerate 0 (propietarios sd))"
  have nth: "owners' ! i = fst (enrichOwner dniperuConfig (lookup i) (propietarios sd ! i))"
    if "i < length (propietarios sd)" for i
    using that by (simp add: owners'_def nth_enumerate_eq)
  have res: "enrichSunarpWithDni lookup (Some sd) =
           (Some (sd\<lparr> propietarios := owners' \<rparr>),
            map (\<lambda>owner. Fetch ''http://localhost:8000/consulta-dni-peru'' Dni (ownerDni owner))
              (filter (\<lambda>owner. length (ownerDni owner) = 8) (propietarios sd)))"
    using concat_requests[of dniperuConfig lookup 0 "propietarios sd"]
    by (simp add: enrich_owners owners'_def) (simp add: dniperuConfig_def)
  have len: "length owners' = length (propietarios sd)"
    by (simp add: owners'_def)
  have each: "documento (owners' ! i) = documento (propietarios sd ! i) \<and>
            (lookupFails (lookup i) \<longrightarrow> owners' ! i = propietarios sd ! i) \<and>
            (\<forall>st body d.
               lookup i = Response st body (Inr d) \<and> ok st \<and>
               length (ownerDni (propietarios sd ! i)) = 8 \<longrightarrow>
               (\<exists>rd. reniec (owners' ! i) = Some rd \<and>
                     DniData.truncate rd =
                       parseDniPeru (coalesce (getProp d ''resultado_crudo'') (JStr [])) d))"
    if "i < length (propietarios sd)" for i
    using nth[OF that] enrichOwner_documento enrichOwner_fail enrichOwner_ok
    by metis
  show ?thesis
  proof (intro exI[of _ "sd\<lparr> propietarios := owners' \<rparr>"] conjI)
    show "\<forall>i < length (propietarios sd).
            documento (propietarios (sd\<lparr> propietarios := owners' \<rparr>) ! i) =
              documento (propietarios sd ! i) \<and>
            (lookupFails (lookup i) \<longrightarrow>
               propietarios (sd\<lparr> propietarios := owners' \<rparr>) ! i = propietarios sd ! i) \<and>
            (\<forall>st body d.
               lookup i = Response st body (Inr d) \<and> ok st \<and>
               length (ownerDni (propietarios sd ! i)) = 8 \<longrightarrow>
               (\<exists>rd. reniec (propietarios (sd\<lparr> propietarios := owners' \<rparr>) ! i) = Some rd \<and>
                     DniData.truncate rd =
                       parseDniPeru (coalesce (getProp d ''resultado_crudo'') (JStr [])) d))"
      using each by simp blast
  qed (simp_all add: res len)
qed

theorem enricher_partial_failure_witness:
  "(case fst (enrichSunarpWithDni threeLookups (Some threeOwners)) of
      None \<Rightarrow> False
    | Some sd' \<Rightarrow>
        length (propietarios sd') = 3 \<and>
        map documento (propietarios sd') = [Some ''12345678'', Some ''87654321'', Some ''1111-2222''] \<and>
        map nombre (propietarios sd') = [JStr ''Ana Lopez'', JStr ''Luis Rojas'', JStr ''Eva Diaz''] \<and>
        propietarios sd' ! 1 = ownerWith ''Luis Rojas'' ''87654321'' \<and>
        reniec (propietarios sd' ! 0) \<noteq> None \<and>
        reniec (propietarios sd' ! 2) \<noteq> None) \<and>
   snd (enrichSunarpWithDni threeLookups (Some threeOwners)) =
     [Fetch ''http://localhost:8000/consulta-dni-peru'' Dni ''12345678'',
      Fetch ''http://localhost:8000/consulta-dni-peru'' Dni ''87654321'',
      Fetch ''http://localhost:8000/consulta-dni-peru'' Dni ''11112222'']"
proof -
  obtain sd' where
    res: "enrichSunarpWithDni threeLookups (Some threeOwners) =
           (Some sd',
            map (\<lambda>owner. Fetch ''http://localhost:8000/consulta-dni-peru'' Dni (ownerDni owner))
              (filter (\<lambda>owner. length (ownerDni owner) = 8) (propietarios threeOwners)))"
    and len: "length (propietarios sd') = length (propietarios threeOwners)"
    and each: "\<forall>i < length (propietarios threeOwners).
            documento (propietarios sd' ! i) = documento (propietarios threeOwners ! i) \<and>
            (lookupFails (threeLookups i) \<longrightarrow> propietarios sd' ! i = propietarios threeOwners ! i) \<and>
            (\<forall>st body d.
               threeLookups i = Response st body (Inr d) \<and> ok st \<and>
               length (ownerDni (propietarios threeOwners ! i)) = 8 \<longrightarrow>
               (\<exists>rd. reniec (propietarios sd' ! i) = Some rd \<and>
                     DniData.truncate rd =
                       parseDniPeru (coalesce (getProp d ''resultado_crudo'') (JStr [])) d))"
    using enricher_partial_failure[of threeLookups threeOwners] by blast
  have three: "length (propietarios threeOwners) = 3"
    by (simp add: threeOwners_def)
  have fails: "lookupFails (threeLookups 1)"
    by code_simp
  have ok0: "threeLookups 0 = Response 200 [] (Inr identityAnswer) \<and> ok 200 \<and>
             length (ownerDni (propietarios threeOwners ! 0)) = 8"
    by code_simp
  have ok2: "threeLookups 2 = Response 200 [] (Inr identityAnswer) \<and> ok 200 \<and>
             length (ownerDni (propietarios threeOwners ! 2)) = 8"
    by code_simp
  have second: "propietarios threeOwners ! 1 = ownerWith ''Luis Rojas'' ''87654321''"
    by (simp add: threeOwners_def)
  have lt: "0 < length (propietarios threeOwners)" "1 < length (propietarios threeOwners)"
    "2 < length (propietarios threeOwners)"
    by (simp_all add: three)
  have r0: "reniec (propietarios sd' ! 0) \<noteq> None"
    using each[rule_format, OF lt(1)] ok0 by fastforce
  have r2: "reniec (propietarios sd' ! 2) \<noteq> None"
    using each[rule_format, OF lt(3)] ok2 by fastforce
  have u1: "propietarios sd' ! 1 = ownerWith ''Luis Rojas'' ''87654321''"
    using each[rule_format, OF lt(2)] fails second by simp
  have vals: "map documento (propietarios (the (fst (enrichSunarpWithDni threeLookups (Some threeOwners))))) =
                 [Some ''12345678'', Some ''87654321'', Some ''1111-2222''] \<and>
              map nombre (propietarios (the (fst (enrichSunarpWithDni threeLookups (Some threeOwners))))) =
                 [JStr ''Ana Lopez'', JStr ''Luis Rojas'', JStr ''Eva Diaz''] \<and>
              snd (enrichSunarpWithDni threeLookups (Some threeOwners)) =
     [Fetch ''http://localhost:8000/consulta-dni-peru'' Dni ''12345678'',
      Fetch ''http://localhost:8000/consulta-dni-peru'' Dni ''87654321'',
      Fetch ''http://localhost:8000/consulta-dni-peru'' Dni ''11112222'']"
    by code_simp
  show ?thesis
    using res len three r0 r2 u1 vals by simp
qed

end
